theory Spec2Isabelle
  imports Complex_Main "HOL-Library.Monad_Syntax" "HOL-Library.AList"
begin

section \<open>Go values\<close>

text \<open>
  A \<^verbatim>\<open>float64\<close>. The code of \<^verbatim>\<open>es.go\<close> only compares such a value with zero and
  converts it to \<^verbatim>\<open>int64\<close>, so a finite value is kept as the rational number it denotes
  (both zeros are \<open>Finite 0\<close>, which is what Go's \<^verbatim>\<open>==\<close> sees).
\<close>

datatype float64 = Finite rat | PosInf | NegInf | NaN

text \<open>
  The conversion \<^verbatim>\<open>int64(f)\<close>: truncation towards zero. Go leaves the result open when the
  value does not fit; the value written here for that case is the one of amd64.
\<close>

definition int64_of_float64 :: "float64 \<Rightarrow> int" where
  "int64_of_float64 f =
     (case f of
        Finite q \<Rightarrow>
          (let t = (if 0 \<le> q then \<lfloor>q\<rfloor> else \<lceil>q\<rceil>)
           in if - (2 ^ 63) \<le> t \<and> t < 2 ^ 63 then t else - (2 ^ 63))
      | _ \<Rightarrow> - (2 ^ 63))"

text \<open>Addition on \<^verbatim>\<open>int\<close> (64 bits), with its wrap-around.\<close>

definition wrap64 :: "int \<Rightarrow> int" where
  "wrap64 x = (x + 2 ^ 63) mod 2 ^ 64 - 2 ^ 63"

text \<open>
  The dynamic values behind \<^verbatim>\<open>interface{}\<close> after a JSON document was decoded into
  \<^verbatim>\<open>map[string]interface{}\<close>. A map is an association list read with \<open>map_of\<close>; the code
  never depends on the order of the keys.
\<close>

datatype any =
    ANil
  | ABool bool
  | AFloat64 float64
  | AString string
  | ASlice "any list"
  | AMap "(string \<times> any) list"

text \<open>\<^verbatim>\<open>m[k]\<close> on a map: the zero value \<^verbatim>\<open>nil\<close> when the key is missing.\<close>

definition index_map :: "(string \<times> any) list \<Rightarrow> string \<Rightarrow> any" where
  "index_map m k = (case map_of m k of None \<Rightarrow> ANil | Some v \<Rightarrow> v)"

text \<open>
  The unchecked type assertions \<^verbatim>\<open>x.(map[string]interface{})\<close>, \<^verbatim>\<open>x.([]interface{})\<close> and
  \<^verbatim>\<open>x.(float64)\<close>, and the index expression \<^verbatim>\<open>s[0]\<close>. \<open>None\<close> is the run-time panic.
\<close>

fun assert_map :: "any \<Rightarrow> (string \<times> any) list option" where
  "assert_map (AMap m) = Some m"
| "assert_map _ = None"

fun assert_slice :: "any \<Rightarrow> any list option" where
  "assert_slice (ASlice s) = Some s"
| "assert_slice _ = None"

fun assert_float64 :: "any \<Rightarrow> float64 option" where
  "assert_float64 (AFloat64 f) = Some f"
| "assert_float64 _ = None"

fun index0 :: "any list \<Rightarrow> any option" where
  "index0 [] = None"
| "index0 (x # _) = Some x"

section \<open>The data model of package es\<close>

text \<open>\<^verbatim>\<open>time.Time\<close> belongs to the standard library; it is the type parameter \<open>'t\<close>.\<close>

record 't User =
  ID :: int
  CreatedAt :: 't
  Username :: string

record 't SearchResult =
  Users :: "'t User list"
  TotalCount :: int
  LastSort :: float64

text \<open>The composite literal \<^verbatim>\<open>SearchResult{}\<close>.\<close>

definition SearchResult_zero :: "'t SearchResult" where
  "SearchResult_zero = \<lparr>Users = [], TotalCount = 0, LastSort = Finite 0\<rparr>"

text \<open>The five \<^verbatim>\<open>fmt.Errorf\<close> values of \<^verbatim>\<open>Load\<close>, in the order of the source.\<close>

datatype error =
    ErrEncodingQuery
  | ErrSearchResponse string
  | ErrParsingFailureBody
  | ErrFailureStatus "(string \<times> any) list"
  | ErrParsingBody

text \<open>How a call ends: it returns, it panics, or \<^verbatim>\<open>log.Fatalf\<close> ends the process.\<close>

datatype 'a exec = Returns 'a | Panics | Exits

section \<open>The collaborators: search engine client and JSON library\<close>

text \<open>
  The options handed to \<^verbatim>\<open>esClient.Search\<close>; an option that is not passed is \<open>None\<close>.
\<close>

record SearchRequest =
  WithTimeout :: int
  WithIndex :: "string list"
  WithBody :: string
  WithFrom :: "int option"
  WithSize :: "int option"
  WithTrackTotalHits :: bool
  WithPretty :: bool

record Response =
  StatusCode :: int
  Body :: string

definition IsError :: "Response \<Rightarrow> bool" where
  "IsError res = (299 < StatusCode res)"

text \<open>
  One round trip: the request and what came back (\<open>Inl\<close> the transport error). The list of
  the round trips made so far is the state that \<^verbatim>\<open>Load\<close> and its callers pass along; the
  engine's answer may depend on it.
\<close>

type_synonym exchange = "SearchRequest \<times> (string + Response)"

record Client =
  defaultIndex :: string
  maxSearchQueryTimeout :: int
  isTrackTotalHits :: bool
  Search :: "exchange list \<Rightarrow> SearchRequest \<Rightarrow> string + Response"

text \<open>
  The four entry points of \<^verbatim>\<open>jsoniter\<close> that \<^verbatim>\<open>Load\<close> calls; they are parameters of the model.
  \<open>None\<close> is a returned error. \<^verbatim>\<open>Load\<close> only hands the bytes of \<^verbatim>\<open>Marshal\<close> on to \<^verbatim>\<open>Unmarshal\<close>;
  their type is the parameter \<open>'b\<close>.
\<close>

record ('t, 'b) jsoniter =
  Encode :: "any \<Rightarrow> string option"
  Decode :: "string \<Rightarrow> (string \<times> any) list option"
  Marshal :: "(string \<times> any) list \<Rightarrow> 'b option"
  Unmarshal :: "'b \<Rightarrow> 't User option"

section \<open>Load\<close>

text \<open>Lines 114 to 128: the query map.\<close>

definition query_of :: "float64 \<Rightarrow> (string \<times> any) list" where
  "query_of cursor =
     (let query = [(''query'', AMap [(''match_all'', AMap [])])];
          sortQuery = ASlice [AMap [(''ID'', AMap [(''order'', AString ''asc'')])]];
          query = AList.update ''sort'' sortQuery query
      in if cursor \<noteq> Finite 0
         then AList.update ''search_after'' (ASlice [AFloat64 cursor]) query
         else query)"

text \<open>Lines 141 to 164: the two shapes of the call of \<^verbatim>\<open>Search\<close>.\<close>

definition search_request ::
  "Client \<Rightarrow> string \<Rightarrow> int \<Rightarrow> int \<Rightarrow> float64 \<Rightarrow> string \<Rightarrow> SearchRequest" where
  "search_request c index from sz cursor buf =
     (if cursor \<noteq> Finite 0
      then \<lparr>WithTimeout = maxSearchQueryTimeout c, WithIndex = [index], WithBody = buf,
            WithFrom = None, WithSize = Some sz,
            WithTrackTotalHits = isTrackTotalHits c, WithPretty = True\<rparr>
      else \<lparr>WithTimeout = maxSearchQueryTimeout c, WithIndex = [index], WithBody = buf,
            WithFrom = Some from, WithSize = Some sz,
            WithTrackTotalHits = isTrackTotalHits c, WithPretty = True\<rparr>)"

text \<open>Line 206: the operand of the conversion to \<^verbatim>\<open>int64\<close>.\<close>

definition total_value :: "(string \<times> any) list \<Rightarrow> float64 option" where
  "total_value r =
     do { h \<leftarrow> assert_map (index_map r ''hits'');
          t \<leftarrow> assert_map (index_map h ''total'');
          assert_float64 (index_map t ''value'') }"

text \<open>Lines 211 and 215: \<^verbatim>\<open>r["hits"].(map[string]interface{})["hits"].([]interface{})\<close>.\<close>

definition hits_of :: "(string \<times> any) list \<Rightarrow> any list option" where
  "hits_of r =
     do { h \<leftarrow> assert_map (index_map r ''hits'');
          assert_slice (index_map h ''hits'') }"

text \<open>
  Lines 216 and 222: the sort key and the \<^verbatim>\<open>_source\<close> map of one entry (\<open>None\<close> when one of
  the assertions panics).
\<close>

definition entry_parts :: "any \<Rightarrow> (float64 \<times> (string \<times> any) list) option" where
  "entry_parts v =
     do { vm \<leftarrow> assert_map v;
          s \<leftarrow> assert_slice (index_map vm ''sort'');
          s0 \<leftarrow> index0 s;
          lastSort \<leftarrow> assert_float64 s0;
          vm' \<leftarrow> assert_map v;
          src \<leftarrow> assert_map (index_map vm' ''_source'');
          Some (lastSort, src) }"

text \<open>
  Lines 215 to 245: the loop over the entries. The two calls of \<^verbatim>\<open>c.log.Error\<close> write a
  log line and are left out.
\<close>

fun hits_loop ::
  "('t, 'b) jsoniter \<Rightarrow> int \<Rightarrow> any list \<Rightarrow> 't User list \<Rightarrow> float64 \<Rightarrow> 't SearchResult option" where
  "hits_loop j totalCnt [] docs lastSort =
     Some \<lparr>Users = docs, TotalCount = totalCnt, LastSort = lastSort\<rparr>"
| "hits_loop j totalCnt (v # vs) docs lastSort =
     (case entry_parts v of
        None \<Rightarrow> None
      | Some (lastSort', src) \<Rightarrow>
          (case Marshal j src of
             None \<Rightarrow> Some \<lparr>Users = docs, TotalCount = totalCnt, LastSort = Finite 0\<rparr>
           | Some jsonBody \<Rightarrow>
               (case Unmarshal j jsonBody of
                  None \<Rightarrow> Some \<lparr>Users = docs, TotalCount = totalCnt, LastSort = Finite 0\<rparr>
                | Some doc \<Rightarrow> hits_loop j totalCnt vs (docs @ [doc]) lastSort')))"

text \<open>Lines 204 to 246: the function literal that builds the result (\<open>None\<close>: it panics).\<close>

definition decode_result :: "('t, 'b) jsoniter \<Rightarrow> (string \<times> any) list \<Rightarrow> 't SearchResult option" where
  "decode_result j r =
     do { v \<leftarrow> total_value r;
          let totalCnt = int64_of_float64 v in
          if totalCnt = 0 then Some SearchResult_zero
          else do { hs \<leftarrow> hits_of r;
                    let cntFind = length hs in
                    do { hs' \<leftarrow> hits_of r;
                         hits_loop j totalCnt hs' [] (Finite 0) } } }"

text \<open>
  Lines 151 to 248: what \<^verbatim>\<open>Load\<close> does with the answer of \<^verbatim>\<open>Search\<close>. Closing the body
  only logs and is left out.
\<close>

definition handle_reply ::
  "('t, 'b) jsoniter \<Rightarrow> string + Response \<Rightarrow> ('t SearchResult \<times> error option) exec" where
  "handle_reply j reply =
     (case reply of
        Inl err \<Rightarrow> Returns (SearchResult_zero, Some (ErrSearchResponse err))
      | Inr res \<Rightarrow>
          if IsError res then
            (case Decode j (Body res) of
               None \<Rightarrow> Returns (SearchResult_zero, Some ErrParsingFailureBody)
             | Some e \<Rightarrow> Returns (SearchResult_zero, Some (ErrFailureStatus e)))
          else
            (case Decode j (Body res) of
               None \<Rightarrow> Returns (SearchResult_zero, Some ErrParsingBody)
             | Some r \<Rightarrow>
                 (case decode_result j r of
                    None \<Rightarrow> Panics
                  | Some result \<Rightarrow> Returns (result, None))))"

text \<open>
  \<^verbatim>\<open>Load\<close>, lines 107 to 249. The context and the logger are left out. The second component
  is the list of round trips, one longer when \<^verbatim>\<open>Search\<close> was called.
\<close>

definition Load ::
  "('t, 'b) jsoniter \<Rightarrow> Client \<Rightarrow> string \<Rightarrow> int \<Rightarrow> int \<Rightarrow> float64 \<Rightarrow> exchange list
     \<Rightarrow> ('t SearchResult \<times> error option) exec \<times> exchange list" where
  "Load j c index from sz cursor hist =
     (case Encode j (AMap (query_of cursor)) of
        None \<Rightarrow> (Returns (SearchResult_zero, Some ErrEncodingQuery), hist)
      | Some buf \<Rightarrow>
          (let index = (if index = [] then defaultIndex c else index);
               req = search_request c index from sz cursor buf;
               reply = Search c hist req
           in (handle_reply j reply, hist @ [(req, reply)])))"

section \<open>The pagination drivers of package main\<close>

text \<open>
  The loop of \<^verbatim>\<open>loadSimplePagination\<close>, lines 48 to 56, with the page size and the bound as
  arguments (the source fixes them to 10 and 100). A failed fetch ends the process. With a
  page size that is not positive the loop need not end, hence the option type.
\<close>

partial_function (option) offset_loop ::
  "('t, 'b) jsoniter \<Rightarrow> Client \<Rightarrow> string \<Rightarrow> int \<Rightarrow> int \<Rightarrow> int \<Rightarrow> 't User list \<Rightarrow> exchange list
     \<Rightarrow> ('t User list exec \<times> exchange list) option" where
  "offset_loop j c index sz bound i result hist =
     (if i < bound then
        (case Load j c index i sz (Finite 0) hist of
           (Returns (res, None), hist') \<Rightarrow>
             offset_loop j c index sz bound (wrap64 (i + sz)) (result @ Users res) hist'
         | (Returns (res, Some err2), hist') \<Rightarrow> Some (Exits, hist')
         | (Panics, hist') \<Rightarrow> Some (Panics, hist')
         | (Exits, hist') \<Rightarrow> Some (Exits, hist'))
      else Some (Returns result, hist))"


text \<open>The loop of \<^verbatim>\<open>cursorPaginate\<close>, lines 89 to 99.\<close>

function cursor_loop ::
  "('t, 'b) jsoniter \<Rightarrow> Client \<Rightarrow> string \<Rightarrow> int \<Rightarrow> int \<Rightarrow> float64 \<Rightarrow> 't User list \<Rightarrow> exchange list
     \<Rightarrow> 't User list exec \<times> exchange list" where
  "cursor_loop j c index sz i ls res hist =
     (if i < 10 then
        (case Load j c index 0 sz ls hist of
           (Returns (res2, None), hist') \<Rightarrow>
             cursor_loop j c index sz (i + 1) (LastSort res2) (res @ Users res2) hist'
         | (Returns (res2, Some err2), hist') \<Rightarrow> (Exits, hist')
         | (Panics, hist') \<Rightarrow> (Panics, hist')
         | (Exits, hist') \<Rightarrow> (Exits, hist'))
      else (Returns res, hist))"
  by pat_completeness auto
termination
  by (relation "measure (\<lambda>(j, c, index, sz, i, ls, res, hist). nat (10 - i))") auto

text \<open>
  \<^verbatim>\<open>cursorPaginate\<close>, lines 79 to 101. The error of the first fetch is assigned to the blank
  identifier.
\<close>

definition cursorPaginate ::
  "('t, 'b) jsoniter \<Rightarrow> Client \<Rightarrow> string \<Rightarrow> exchange list \<Rightarrow> 't User list exec \<times> exchange list" where
  "cursorPaginate j c index hist =
     (let from = 0; sz = 10 in
      case Load j c index from sz (Finite 0) hist of
        (Returns (initRes, _), hist') \<Rightarrow>
          cursor_loop j c index sz 1 (LastSort initRes) ([] @ Users initRes) hist'
      | (Panics, hist') \<Rightarrow> (Panics, hist')
      | (Exits, hist') \<Rightarrow> (Exits, hist'))"

section \<open>Vocabulary of the statements\<close>

text \<open>
  The envelope that a call of \<^verbatim>\<open>Load\<close> decodes at line 196: the query was encoded, the
  search came back without a transport error and with a success status, and the body was
  decoded. \<open>None\<close> when the call does not get that far.
\<close>

definition response_envelope ::
  "('t, 'b) jsoniter \<Rightarrow> Client \<Rightarrow> string \<Rightarrow> int \<Rightarrow> int \<Rightarrow> float64 \<Rightarrow> exchange list
     \<Rightarrow> (string \<times> any) list option" where
  "response_envelope j c index from sz cursor hist =
     (case Encode j (AMap (query_of cursor)) of
        None \<Rightarrow> None
      | Some buf \<Rightarrow>
          (case Search c hist
                  (search_request c (if index = [] then defaultIndex c else index)
                     from sz cursor buf) of
             Inl err \<Rightarrow> None
           | Inr res \<Rightarrow> if IsError res then None else Decode j (Body res)))"

text \<open>
  Lines 222 and 233 on one \<^verbatim>\<open>_source\<close> map: \<^verbatim>\<open>Marshal\<close>, then \<^verbatim>\<open>Unmarshal\<close> into a fresh
  \<^verbatim>\<open>User\<close>. \<open>None\<close> when either step returns an error, which is a per-document decode failure.
\<close>

definition decode_doc :: "('t, 'b) jsoniter \<Rightarrow> (string \<times> any) list \<Rightarrow> 't User option" where
  "decode_doc j src = do { jsonBody \<leftarrow> Marshal j src; Unmarshal j jsonBody }"

text \<open>An entry that passes the loop body: its sort key and its document.\<close>

definition decode_entry :: "('t, 'b) jsoniter \<Rightarrow> any \<Rightarrow> (float64 \<times> 't User) option" where
  "decode_entry j v =
     do { (lastSort, src) \<leftarrow> entry_parts v;
          doc \<leftarrow> decode_doc j src;
          Some (lastSort, doc) }"

text \<open>
  The document list of the page that \<^verbatim>\<open>Load\<close> returned for one round trip (empty when it
  panicked).
\<close>

definition exchange_users :: "('t, 'b) jsoniter \<Rightarrow> exchange \<Rightarrow> 't User list" where
  "exchange_users j x =
     (case handle_reply j (snd x) of Returns (res, err) \<Rightarrow> Users res | _ \<Rightarrow> [])"

section \<open>Concrete collaborators for running the model\<close>

text \<open>
  A small JSON library for documents with the fields \<^verbatim>\<open>ID\<close>, \<^verbatim>\<open>CreatedAt\<close> and \<^verbatim>\<open>Username\<close>
  under exactly these names. Every body \<open>''ok''\<close> decodes to the envelope \<open>r\<close>. \<^verbatim>\<open>Marshal\<close> never
  fails, and its bytes are kept as the object they spell. \<^verbatim>\<open>Unmarshal\<close> treats the three
  fields as the library does: a missing or \<^verbatim>\<open>null\<close> field leaves the zero value, \<^verbatim>\<open>ID\<close>
  takes a number that is an integer of 64 bits, \<^verbatim>\<open>Username\<close> a string, \<^verbatim>\<open>CreatedAt\<close> a string
  (its text is kept and not parsed), and any other value is an error.
\<close>

definition sample_int :: "any option \<Rightarrow> int option" where
  "sample_int x =
     (case x of
        None \<Rightarrow> Some 0
      | Some ANil \<Rightarrow> Some 0
      | Some (AFloat64 (Finite q)) \<Rightarrow>
          if of_int \<lfloor>q\<rfloor> = q \<and> - (2 ^ 63) \<le> \<lfloor>q\<rfloor> \<and> \<lfloor>q\<rfloor> < 2 ^ 63 then Some \<lfloor>q\<rfloor> else None
      | Some _ \<Rightarrow> None)"

definition sample_string :: "any option \<Rightarrow> string option" where
  "sample_string x =
     (case x of
        None \<Rightarrow> Some []
      | Some ANil \<Rightarrow> Some []
      | Some (AString s) \<Rightarrow> Some s
      | Some _ \<Rightarrow> None)"

definition sample_unmarshal :: "(string \<times> any) list \<Rightarrow> string User option" where
  "sample_unmarshal b =
     do { i \<leftarrow> sample_int (map_of b ''ID'');
          t \<leftarrow> sample_string (map_of b ''CreatedAt'');
          u \<leftarrow> sample_string (map_of b ''Username'');
          Some \<lparr>ID = i, CreatedAt = t, Username = u\<rparr> }"

definition sample_json :: "(string \<times> any) list \<Rightarrow> (string, (string \<times> any) list) jsoniter" where
  "sample_json r =
     \<lparr>Encode = (\<lambda>q. Some ''query''),
      Decode = (\<lambda>b. if b = ''ok'' then Some r else None),
      Marshal = Some,
      Unmarshal = sample_unmarshal\<rparr>"

text \<open>An engine that answers every search with status 200 and the body \<open>''ok''\<close>.\<close>

definition sample_client :: Client where
  "sample_client =
     \<lparr>defaultIndex = ''my-simple-index'', maxSearchQueryTimeout = 30000000000,
      isTrackTotalHits = True,
      Search = (\<lambda>hist req. Inr \<lparr>StatusCode = 200, Body = ''ok''\<rparr>)\<rparr>"

text \<open>A document, an entry of \<^verbatim>\<open>hits.hits\<close> with one sort key, and an envelope.\<close>

definition sample_doc :: "rat \<Rightarrow> any \<Rightarrow> any" where
  "sample_doc i name = AMap [(''ID'', AFloat64 (Finite i)), (''Username'', name)]"

definition sample_hit :: "rat \<Rightarrow> any \<Rightarrow> any" where
  "sample_hit k src = AMap [(''sort'', ASlice [AFloat64 (Finite k)]), (''_source'', src)]"

definition sample_envelope :: "rat \<Rightarrow> any list \<Rightarrow> (string \<times> any) list" where
  "sample_envelope tot hs =
     [(''hits'', AMap [(''total'', AMap [(''value'', AFloat64 (Finite tot))]),
                       (''hits'', ASlice hs)])]"

section \<open>Basic facts\<close>

lemmas model_defs =
  Load_def handle_reply_def decode_result_def total_value_def hits_of_def entry_parts_def
  index_map_def query_of_def search_request_def IsError_def SearchResult_zero_def
  int64_of_float64_def response_envelope_def decode_doc_def decode_entry_def Let_def

lemmas sample_defs =
  sample_json_def sample_unmarshal_def sample_int_def sample_string_def sample_client_def
  sample_doc_def sample_hit_def sample_envelope_def

lemma Load_envelope:
  assumes "response_envelope j c index from sz cursor hist = Some r"
  shows "fst (Load j c index from sz cursor hist) =
           (case decode_result j r of None \<Rightarrow> Panics | Some result \<Rightarrow> Returns (result, None))"
  using assms
  by (auto simp: response_envelope_def Load_def handle_reply_def Let_def
           split: option.splits sum.splits if_splits)

section \<open>Errors of Load\<close>

text \<open>
  C9: whenever \<^verbatim>\<open>Load\<close> returns an error, the result beside it is the zero
  \<^verbatim>\<open>SearchResult\<close>: no documents, total count 0, cursor 0.
\<close>

theorem Load_error_has_zero_result:
  assumes "Load j c index from sz cursor hist = (Returns (result, Some err), hist')"
  shows "result = SearchResult_zero \<and> Users result = [] \<and> TotalCount result = 0
           \<and> LastSort result = Finite 0"
proof -
  from assms have "result = SearchResult_zero"
    by (auto simp: Load_def handle_reply_def Let_def split: option.splits sum.splits if_splits)
  then show ?thesis by (simp add: SearchResult_zero_def)
qed

theorem Load_error_has_zero_result_witness:
  "Load (sample_json []) (sample_client\<lparr>Search := \<lambda>hist req. Inl ''connection refused''\<rparr>)
      [] 0 10 (Finite 0) []
     = (Returns (\<lparr>Users = [], TotalCount = 0, LastSort = Finite 0\<rparr>,
                 Some (ErrSearchResponse ''connection refused'')),
        [(\<lparr>WithTimeout = 30000000000, WithIndex = [''my-simple-index''], WithBody = ''query'',
           WithFrom = Some 0, WithSize = Some 10, WithTrackTotalHits = True,
           WithPretty = True\<rparr>, Inl ''connection refused'')])
   \<and> Users \<lparr>Users = [] :: string User list, TotalCount = 0, LastSort = Finite 0\<rparr> = []"
proof -
  have run: "Load (sample_json []) (sample_client\<lparr>Search := \<lambda>hist req. Inl ''connection refused''\<rparr>)
      [] 0 10 (Finite 0) []
     = (Returns (\<lparr>Users = [], TotalCount = 0, LastSort = Finite 0\<rparr>,
                 Some (ErrSearchResponse ''connection refused'')),
        [(\<lparr>WithTimeout = 30000000000, WithIndex = [''my-simple-index''], WithBody = ''query'',
           WithFrom = Some 0, WithSize = Some 10, WithTrackTotalHits = True,
           WithPretty = True\<rparr>, Inl ''connection refused'')])"
    by (simp add: model_defs sample_defs)
  from Load_error_has_zero_result [OF run] run show ?thesis by blast
qed

section \<open>The total count\<close>

text \<open>
  C5: when the value at \<^verbatim>\<open>hits.total.value\<close> of the envelope is zero, \<^verbatim>\<open>Load\<close> returns
  the empty page (no documents, total count 0, cursor 0) and no error, whatever else the
  envelope holds.
\<close>

theorem Load_zero_total_gives_empty_page:
  assumes "response_envelope j c index from sz cursor hist = Some r"
    and "total_value r = Some (Finite 0)"
  shows "fst (Load j c index from sz cursor hist)
           = Returns (\<lparr>Users = [], TotalCount = 0, LastSort = Finite 0\<rparr>, None)"
proof -
  have "decode_result j r = Some SearchResult_zero"
    using assms(2) by (simp add: decode_result_def int64_of_float64_def)
  with Load_envelope [OF assms(1)] show ?thesis by (simp add: SearchResult_zero_def)
qed

theorem Load_zero_total_gives_empty_page_witness:
  "response_envelope (sample_json (sample_envelope 0 [ANil, AString ''noise'']))
      sample_client [] 0 10 (Finite 0) [] = Some (sample_envelope 0 [ANil, AString ''noise''])
   \<and> total_value (sample_envelope 0 [ANil, AString ''noise'']) = Some (Finite 0)
   \<and> fst (Load (sample_json (sample_envelope 0 [ANil, AString ''noise''])) sample_client
             [] 0 10 (Finite 0) [])
       = Returns (\<lparr>Users = [], TotalCount = 0, LastSort = Finite 0\<rparr>, None)"
proof -
  have e: "response_envelope (sample_json (sample_envelope 0 [ANil, AString ''noise'']))
      sample_client [] 0 10 (Finite 0) [] = Some (sample_envelope 0 [ANil, AString ''noise''])"
    by (simp add: model_defs sample_defs)
  have t: "total_value (sample_envelope 0 [ANil, AString ''noise'']) = Some (Finite 0)"
    by (simp add: model_defs sample_defs)
  from Load_zero_total_gives_empty_page [OF e t] e t show ?thesis by simp
qed

section \<open>The loop over the entries\<close>

lemma decode_entry_Some:
  "decode_entry j v = Some (ls, doc) \<longleftrightarrow>
     (\<exists>src. entry_parts v = Some (ls, src) \<and> decode_doc j src = Some doc)"
  by (auto simp: decode_entry_def split: Option.bind_splits)

lemma hits_loop_Cons_decoded:
  assumes "decode_entry j v = Some (ls, doc)"
  shows "hits_loop j t (v # vs) docs ls0 = hits_loop j t vs (docs @ [doc]) ls"
  using assms
  by (auto simp: decode_entry_Some decode_doc_def split: Option.bind_splits)

lemma hits_loop_Cons_failed:
  assumes "entry_parts v = Some (ls, src)" and "decode_doc j src = None"
  shows "hits_loop j t (v # vs) docs ls0
           = Some \<lparr>Users = docs, TotalCount = t, LastSort = Finite 0\<rparr>"
  using assms by (auto simp: decode_doc_def split: Option.bind_splits option.splits)

declare hits_loop.simps(2) [simp del]

lemma hits_loop_all_decoded:
  assumes "map (decode_entry j) vs = map Some lds"
  shows "hits_loop j t vs docs ls0
           = Some \<lparr>Users = docs @ map snd lds, TotalCount = t,
                   LastSort = (if lds = [] then ls0 else fst (last lds))\<rparr>"
  using assms
proof (induction vs arbitrary: lds docs ls0)
  case Nil
  then show ?case by simp
next
  case (Cons v vs)
  then obtain ld lds' where lds: "lds = ld # lds'" and v: "decode_entry j v = Some ld"
    and rest: "map (decode_entry j) vs = map Some lds'"
    by (cases lds) auto
  obtain ls doc where ld: "ld = (ls, doc)" by (cases ld)
  have "hits_loop j t (v # vs) docs ls0 = hits_loop j t vs (docs @ [doc]) ls"
    using v ld by (simp add: hits_loop_Cons_decoded)
  also have "\<dots> = Some \<lparr>Users = (docs @ [doc]) @ map snd lds', TotalCount = t,
                         LastSort = (if lds' = [] then ls else fst (last lds'))\<rparr>"
    by (rule Cons.IH [OF rest])
  finally show ?case by (simp add: lds ld)
qed

lemma hits_loop_truncated:
  assumes "map (decode_entry j) pre = map Some lds"
    and "entry_parts bad = Some (ls, src)" and "decode_doc j src = None"
  shows "hits_loop j t (pre @ bad # post) docs ls0
           = Some \<lparr>Users = docs @ map snd lds, TotalCount = t, LastSort = Finite 0\<rparr>"
  using assms(1)
proof (induction pre arbitrary: lds docs ls0)
  case Nil
  then show ?case using assms(2,3) by (simp add: hits_loop_Cons_failed)
next
  case (Cons v pre)
  then obtain ld lds' where lds: "lds = ld # lds'" and v: "decode_entry j v = Some ld"
    and rest: "map (decode_entry j) pre = map Some lds'"
    by (cases lds) auto
  obtain ls' doc where ld: "ld = (ls', doc)" by (cases ld)
  have "hits_loop j t ((v # pre) @ bad # post) docs ls0
          = hits_loop j t (pre @ bad # post) (docs @ [doc]) ls'"
    using v ld by (simp add: hits_loop_Cons_decoded)
  also have "\<dots> = Some \<lparr>Users = (docs @ [doc]) @ map snd lds', TotalCount = t,
                         LastSort = Finite 0\<rparr>"
    by (rule Cons.IH [OF rest])
  finally show ?case by (simp add: lds ld)
qed

lemma hits_loop_failed_entry_cursor:
  assumes "hits_loop j t vs docs ls0 = Some page"
    and "bad \<in> set vs" and "entry_parts bad = Some (ls, src)" and "decode_doc j src = None"
  shows "LastSort page = Finite 0"
  using assms(1,2)
proof (induction vs arbitrary: docs ls0)
  case Nil
  then show ?case by simp
next
  case (Cons v vs)
  have "entry_parts v \<noteq> None"
  proof
    assume "entry_parts v = None"
    then have "hits_loop j t (v # vs) docs ls0 = None" by (simp add: hits_loop.simps(2))
    with Cons.prems(1) show False by simp
  qed
  then obtain ls' src' where parts: "entry_parts v = Some (ls', src')" by auto
  show ?case
  proof (cases "decode_doc j src'")
    case None
    with parts Cons.prems(1) show ?thesis by (auto simp: hits_loop_Cons_failed)
  next
    case (Some doc)
    with parts have ok: "decode_entry j v = Some (ls', doc)"
      by (simp add: decode_entry_Some)
    then have "bad \<noteq> v" using assms(3,4) parts Some by auto
    with Cons.prems(2) have "bad \<in> set vs" by simp
    moreover from Cons.prems(1) ok have "hits_loop j t vs (docs @ [doc]) ls' = Some page"
      by (simp add: hits_loop_Cons_decoded)
    ultimately show ?thesis by (rule Cons.IH [rotated])
  qed
qed

lemma decode_result_nonzero:
  assumes "total_value r = Some v" and "int64_of_float64 v \<noteq> 0" and "hits_of r = Some vs"
  shows "decode_result j r = hits_loop j (int64_of_float64 v) vs [] (Finite 0)"
  using assms by (simp add: decode_result_def)


section \<open>Partial pages\<close>

text \<open>
  C2, as amended: take an envelope with a non-zero total in which the entries before the
  Nth one decode and the Nth entry has a sort key and a \<^verbatim>\<open>_source\<close> object that does not
  decode (\<^verbatim>\<open>Marshal\<close> or \<^verbatim>\<open>Unmarshal\<close> returns an error). Then \<^verbatim>\<open>Load\<close> returns, with no error, a
  page that holds exactly the N-1 documents decoded so far and the total count of the
  envelope. The entries after the Nth one are arbitrary: they are not looked at.
\<close>

theorem Load_truncates_at_failed_document:
  assumes "response_envelope j c index from sz cursor hist = Some r"
    and "total_value r = Some v" and "int64_of_float64 v \<noteq> 0"
    and "hits_of r = Some (pre @ bad # post)"
    and "map (decode_entry j) pre = map Some lds"
    and "entry_parts bad = Some (ls, src)" and "decode_doc j src = None"
  shows "\<exists>page. fst (Load j c index from sz cursor hist) = Returns (page, None)
           \<and> Users page = map snd lds \<and> TotalCount page = int64_of_float64 v"
proof -
  have "decode_result j r
          = hits_loop j (int64_of_float64 v) (pre @ bad # post) [] (Finite 0)"
    using assms(2,3,4) by (rule decode_result_nonzero)
  also have "\<dots> = Some \<lparr>Users = [] @ map snd lds, TotalCount = int64_of_float64 v,
                         LastSort = Finite 0\<rparr>"
    using assms(5,6,7) by (rule hits_loop_truncated)
  finally show ?thesis using Load_envelope [OF assms(1)] by simp
qed

theorem Load_truncates_at_failed_document_witness:
  "response_envelope
      (sample_json (sample_envelope 3
         [sample_hit 5 (sample_doc 1 (AString ''al'')),
          sample_hit 6 (sample_doc 2 (AFloat64 (Finite 7))), AString ''not an entry'']))
      sample_client [] 0 10 (Finite 0) []
     = Some (sample_envelope 3
         [sample_hit 5 (sample_doc 1 (AString ''al'')),
          sample_hit 6 (sample_doc 2 (AFloat64 (Finite 7))), AString ''not an entry''])
   \<and> total_value (sample_envelope 3
         [sample_hit 5 (sample_doc 1 (AString ''al'')),
          sample_hit 6 (sample_doc 2 (AFloat64 (Finite 7))), AString ''not an entry''])
       = Some (Finite 3)
   \<and> int64_of_float64 (Finite 3) \<noteq> 0
   \<and> hits_of (sample_envelope 3
         [sample_hit 5 (sample_doc 1 (AString ''al'')),
          sample_hit 6 (sample_doc 2 (AFloat64 (Finite 7))), AString ''not an entry''])
       = Some ([sample_hit 5 (sample_doc 1 (AString ''al''))]
               @ sample_hit 6 (sample_doc 2 (AFloat64 (Finite 7))) # [AString ''not an entry''])
   \<and> map (decode_entry (sample_json (sample_envelope 3
         [sample_hit 5 (sample_doc 1 (AString ''al'')),
          sample_hit 6 (sample_doc 2 (AFloat64 (Finite 7))), AString ''not an entry''])))
         [sample_hit 5 (sample_doc 1 (AString ''al''))]
       = map Some [(Finite 5, \<lparr>ID = 1, CreatedAt = (''''::string), Username = ''al''\<rparr>)]
   \<and> entry_parts (sample_hit 6 (sample_doc 2 (AFloat64 (Finite 7))))
       = Some (Finite 6, [(''ID'', AFloat64 (Finite 2)), (''Username'', AFloat64 (Finite 7))])
   \<and> decode_doc (sample_json (sample_envelope 3
         [sample_hit 5 (sample_doc 1 (AString ''al'')),
          sample_hit 6 (sample_doc 2 (AFloat64 (Finite 7))), AString ''not an entry'']))
         [(''ID'', AFloat64 (Finite 2)), (''Username'', AFloat64 (Finite 7))] = None
   \<and> (\<exists>page. fst (Load
         (sample_json (sample_envelope 3
            [sample_hit 5 (sample_doc 1 (AString ''al'')),
             sample_hit 6 (sample_doc 2 (AFloat64 (Finite 7))), AString ''not an entry'']))
         sample_client [] 0 10 (Finite 0) []) = Returns (page, None)
        \<and> Users page = [\<lparr>ID = 1, CreatedAt = (''''::string), Username = ''al''\<rparr>]
        \<and> TotalCount page = 3)"
proof -
  define r where "r = sample_envelope 3
         [sample_hit 5 (sample_doc 1 (AString ''al'')),
          sample_hit 6 (sample_doc 2 (AFloat64 (Finite 7))), AString ''not an entry'']"
  have h1: "response_envelope (sample_json r) sample_client [] 0 10 (Finite 0) [] = Some r"
    by (simp add: model_defs sample_defs)
  have h2: "total_value r = Some (Finite 3)"
    by (simp add: r_def model_defs sample_defs)
  have h3: "int64_of_float64 (Finite 3) \<noteq> 0"
    by (simp add: int64_of_float64_def)
  have h4: "hits_of r
       = Some ([sample_hit 5 (sample_doc 1 (AString ''al''))]
               @ sample_hit 6 (sample_doc 2 (AFloat64 (Finite 7))) # [AString ''not an entry''])"
    by (simp add: r_def model_defs sample_defs)
  have h5: "map (decode_entry (sample_json r)) [sample_hit 5 (sample_doc 1 (AString ''al''))]
       = map Some [(Finite 5, \<lparr>ID = 1, CreatedAt = (''''::string), Username = ''al''\<rparr>)]"
    by (simp add: model_defs sample_defs)
  have h6: "entry_parts (sample_hit 6 (sample_doc 2 (AFloat64 (Finite 7))))
      = Some (Finite 6, [(''ID'', AFloat64 (Finite 2)), (''Username'', AFloat64 (Finite 7))])"
    by (simp add: model_defs sample_defs)
  have h7: "decode_doc (sample_json r)
              [(''ID'', AFloat64 (Finite 2)), (''Username'', AFloat64 (Finite 7))] = None"
    by (simp add: model_defs sample_defs)
  have "int64_of_float64 (Finite 3) = 3" by (simp add: int64_of_float64_def)
  with Load_truncates_at_failed_document [OF h1 h2 h3 h4 h5 h6 h7]
  have "\<exists>page. fst (Load (sample_json r) sample_client [] 0 10 (Finite 0) [])
            = Returns (page, None)
        \<and> Users page = [\<lparr>ID = 1, CreatedAt = (''''::string), Username = ''al''\<rparr>]
        \<and> TotalCount page = 3"
    by simp
  with h1 h2 h3 h4 h5 h6 h7 show ?thesis unfolding r_def by blast
qed

text \<open>
  C2 as stated fails in two ways. With a total of zero \<^verbatim>\<open>Load\<close> returns the empty page
  before it reads the entries, so the document decoded from the first entry is not in the
  page. And when the \<^verbatim>\<open>_source\<close> of the second entry is a string instead of an object, the
  type assertion of line 222 panics: \<^verbatim>\<open>Load\<close> returns no page at all.
\<close>

theorem Load_partial_page_counterexample:
  "decode_entry (sample_json []) (sample_hit 5 (sample_doc 1 (AString ''al'')))
     = Some (Finite 5, \<lparr>ID = 1, CreatedAt = (''''::string), Username = ''al''\<rparr>)
   \<and> decode_entry (sample_json []) (sample_hit 6 (sample_doc 2 (AFloat64 (Finite 7)))) = None
   \<and> Load (sample_json (sample_envelope 0
              [sample_hit 5 (sample_doc 1 (AString ''al'')),
               sample_hit 6 (sample_doc 2 (AFloat64 (Finite 7))),
               sample_hit 7 (sample_doc 3 (AString ''bob''))]))
        sample_client [] 0 10 (Finite 0) []
       = (Returns (\<lparr>Users = [], TotalCount = 0, LastSort = Finite 0\<rparr>, None),
          [(\<lparr>WithTimeout = 30000000000, WithIndex = [''my-simple-index''], WithBody = ''query'',
             WithFrom = Some 0, WithSize = Some 10, WithTrackTotalHits = True,
             WithPretty = True\<rparr>, Inr \<lparr>StatusCode = 200, Body = ''ok''\<rparr>)])
   \<and> Load (sample_json (sample_envelope 3
              [sample_hit 5 (sample_doc 1 (AString ''al'')),
               sample_hit 6 (AString ''oops''),
               sample_hit 7 (sample_doc 3 (AString ''bob''))]))
        sample_client [] 0 10 (Finite 0) []
       = (Panics,
          [(\<lparr>WithTimeout = 30000000000, WithIndex = [''my-simple-index''], WithBody = ''query'',
             WithFrom = Some 0, WithSize = Some 10, WithTrackTotalHits = True,
             WithPretty = True\<rparr>, Inr \<lparr>StatusCode = 200, Body = ''ok''\<rparr>)])"
  by (simp add: model_defs sample_defs hits_loop.simps(2))

text \<open>
  C10: when some entry of \<^verbatim>\<open>hits.hits\<close> fails to decode and \<^verbatim>\<open>Load\<close> returns a page, the
  cursor \<^verbatim>\<open>LastSort\<close> of that page is the unset value 0: the two truncating returns do not
  set the field. A next call that is given this cursor builds a query without
  \<^verbatim>\<open>search_after\<close> and passes its offset argument as \<^verbatim>\<open>from\<close>, that is, it starts from the
  offset again instead of resuming after the last decoded entry.
\<close>

theorem Load_truncated_page_has_unset_cursor:
  assumes "response_envelope j c index from sz cursor hist = Some r"
    and "hits_of r = Some vs"
    and "bad \<in> set vs" and "entry_parts bad = Some (ls, src)" and "decode_doc j src = None"
    and "fst (Load j c index from sz cursor hist) = Returns (page, e)"
  shows "LastSort page = Finite 0
           \<and> map_of (query_of (LastSort page)) ''search_after'' = None
           \<and> WithFrom (search_request c' index' from' sz' (LastSort page) buf) = Some from'"
proof -
  from Load_envelope [OF assms(1)] assms(6)
  have res: "decode_result j r = Some page"
    by (auto split: option.splits)
  then obtain v where v: "total_value r = Some v"
    by (auto simp: decode_result_def split: Option.bind_splits)
  have "LastSort page = Finite 0"
  proof (cases "int64_of_float64 v = 0")
    case True
    with res v have "page = SearchResult_zero" by (simp add: decode_result_def)
    then show ?thesis by (simp add: SearchResult_zero_def)
  next
    case False
    with res v assms(2) have "hits_loop j (int64_of_float64 v) vs [] (Finite 0) = Some page"
      by (simp add: decode_result_nonzero)
    then show ?thesis using assms(3,4,5) by (rule hits_loop_failed_entry_cursor)
  qed
  then show ?thesis by (simp add: query_of_def search_request_def)
qed

theorem Load_truncated_page_has_unset_cursor_witness:
  "response_envelope
      (sample_json (sample_envelope 3
         [sample_hit 5 (sample_doc 1 (AString ''al'')),
          sample_hit 6 (sample_doc 2 (AFloat64 (Finite 7))),
          sample_hit 7 (sample_doc 3 (AString ''bob''))]))
      sample_client [] 0 10 (Finite 0) []
     = Some (sample_envelope 3
         [sample_hit 5 (sample_doc 1 (AString ''al'')),
          sample_hit 6 (sample_doc 2 (AFloat64 (Finite 7))),
          sample_hit 7 (sample_doc 3 (AString ''bob''))])
   \<and> hits_of (sample_envelope 3
         [sample_hit 5 (sample_doc 1 (AString ''al'')),
          sample_hit 6 (sample_doc 2 (AFloat64 (Finite 7))),
          sample_hit 7 (sample_doc 3 (AString ''bob''))])
       = Some [sample_hit 5 (sample_doc 1 (AString ''al'')),
               sample_hit 6 (sample_doc 2 (AFloat64 (Finite 7))),
               sample_hit 7 (sample_doc 3 (AString ''bob''))]
   \<and> sample_hit 6 (sample_doc 2 (AFloat64 (Finite 7)))
       \<in> set [sample_hit 5 (sample_doc 1 (AString ''al'')),
                  sample_hit 6 (sample_doc 2 (AFloat64 (Finite 7))),
                  sample_hit 7 (sample_doc 3 (AString ''bob''))]
   \<and> entry_parts (sample_hit 6 (sample_doc 2 (AFloat64 (Finite 7))))
       = Some (Finite 6, [(''ID'', AFloat64 (Finite 2)), (''Username'', AFloat64 (Finite 7))])
   \<and> decode_doc (sample_json (sample_envelope 3
         [sample_hit 5 (sample_doc 1 (AString ''al'')),
          sample_hit 6 (sample_doc 2 (AFloat64 (Finite 7))),
          sample_hit 7 (sample_doc 3 (AString ''bob''))]))
         [(''ID'', AFloat64 (Finite 2)), (''Username'', AFloat64 (Finite 7))] = None
   \<and> fst (Load
         (sample_json (sample_envelope 3
            [sample_hit 5 (sample_doc 1 (AString ''al'')),
             sample_hit 6 (sample_doc 2 (AFloat64 (Finite 7))),
             sample_hit 7 (sample_doc 3 (AString ''bob''))]))
         sample_client [] 0 10 (Finite 0) [])
       = Returns (\<lparr>Users = [\<lparr>ID = 1, CreatedAt = (''''::string), Username = ''al''\<rparr>], TotalCount = 3,
                    LastSort = Finite 0\<rparr>, None)
   \<and> WithFrom (search_request sample_client ''my-simple-index'' 0 10
         (LastSort \<lparr>Users = [\<lparr>ID = 1, CreatedAt = (''''::string), Username = ''al''\<rparr>], TotalCount = 3,
                    LastSort = Finite 0\<rparr>) ''query'') = Some 0"
proof -
  define r where "r = sample_envelope 3
         [sample_hit 5 (sample_doc 1 (AString ''al'')),
          sample_hit 6 (sample_doc 2 (AFloat64 (Finite 7))),
          sample_hit 7 (sample_doc 3 (AString ''bob''))]"
  have h1: "response_envelope (sample_json r) sample_client [] 0 10 (Finite 0) [] = Some r"
    by (simp add: model_defs sample_defs)
  have h2: "hits_of r
       = Some [sample_hit 5 (sample_doc 1 (AString ''al'')),
               sample_hit 6 (sample_doc 2 (AFloat64 (Finite 7))),
               sample_hit 7 (sample_doc 3 (AString ''bob''))]"
    by (simp add: r_def model_defs sample_defs)
  have h3: "sample_hit 6 (sample_doc 2 (AFloat64 (Finite 7)))
       \<in> set [sample_hit 5 (sample_doc 1 (AString ''al'')),
                  sample_hit 6 (sample_doc 2 (AFloat64 (Finite 7))),
                  sample_hit 7 (sample_doc 3 (AString ''bob''))]"
    by simp
  have h4: "entry_parts (sample_hit 6 (sample_doc 2 (AFloat64 (Finite 7))))
      = Some (Finite 6, [(''ID'', AFloat64 (Finite 2)), (''Username'', AFloat64 (Finite 7))])"
    by (simp add: model_defs sample_defs)
  have h5: "decode_doc (sample_json r)
        [(''ID'', AFloat64 (Finite 2)), (''Username'', AFloat64 (Finite 7))] = None"
    by (simp add: model_defs sample_defs)
  have h6: "fst (Load (sample_json r) sample_client [] 0 10 (Finite 0) [])
       = Returns (\<lparr>Users = [\<lparr>ID = 1, CreatedAt = (''''::string), Username = ''al''\<rparr>], TotalCount = 3,
                    LastSort = Finite 0\<rparr>, None)"
    by (simp add: r_def model_defs sample_defs hits_loop.simps(2))
  from Load_truncated_page_has_unset_cursor [OF h1 h2 h3 h4 h5 h6]
  have "WithFrom (search_request sample_client ''my-simple-index'' 0 10
         (LastSort \<lparr>Users = [\<lparr>ID = 1, CreatedAt = (''''::string), Username = ''al''\<rparr>], TotalCount = 3,
                    LastSort = Finite 0\<rparr>) ''query'') = Some 0"
    by blast
  with h1 h2 h3 h4 h5 h6 show ?thesis unfolding r_def by blast
qed

section \<open>The cursor of a page\<close>

text \<open>
  C1, as amended: for an envelope with a non-zero total and at least one entry in
  \<^verbatim>\<open>hits.hits\<close>, all of whose entries decode, the page that \<^verbatim>\<open>Load\<close> returns has as its
  cursor \<^verbatim>\<open>LastSort\<close> the first element of the sort-key array of the last entry, and its
  documents are the decoded entries in order.
\<close>

theorem Load_cursor_of_fully_decoded_page:
  assumes "response_envelope j c index from sz cursor hist = Some r"
    and "total_value r = Some v" and "int64_of_float64 v \<noteq> 0"
    and "hits_of r = Some vs" and "vs \<noteq> []"
    and "map (decode_entry j) vs = map Some lds"
  shows "\<exists>page. fst (Load j c index from sz cursor hist) = Returns (page, None)
           \<and> map_option fst (entry_parts (last vs)) = Some (LastSort page)
           \<and> Users page = map snd lds"
proof -
  from assms(6) have len: "length vs = length lds"
    by (metis length_map)
  with assms(5) have ne: "lds \<noteq> []" by auto
  have "decode_entry j (last vs) = last (map (decode_entry j) vs)"
    using assms(5) by (simp add: last_map)
  also have "\<dots> = Some (last lds)"
    using assms(6) ne by (simp add: last_map)
  finally have "decode_entry j (last vs) = Some (fst (last lds), snd (last lds))" by simp
  then obtain src where "entry_parts (last vs) = Some (fst (last lds), src)"
    unfolding decode_entry_Some by blast
  then have key: "map_option fst (entry_parts (last vs)) = Some (fst (last lds))"
    by simp
  have "decode_result j r = hits_loop j (int64_of_float64 v) vs [] (Finite 0)"
    using assms(2,3,4) by (rule decode_result_nonzero)
  also have "\<dots> = Some \<lparr>Users = [] @ map snd lds, TotalCount = int64_of_float64 v,
                         LastSort = (if lds = [] then Finite 0 else fst (last lds))\<rparr>"
    using assms(6) by (rule hits_loop_all_decoded)
  finally show ?thesis using Load_envelope [OF assms(1)] key ne by simp
qed

theorem Load_cursor_of_fully_decoded_page_witness:
  "response_envelope
      (sample_json (sample_envelope 25 [sample_hit 5 (sample_doc 1 (AString ''al'')),
          sample_hit 7 (sample_doc 3 (AString ''bob''))]))
      sample_client [] 0 10 (Finite 0) []
     = Some (sample_envelope 25 [sample_hit 5 (sample_doc 1 (AString ''al'')),
         sample_hit 7 (sample_doc 3 (AString ''bob''))])
   \<and> total_value (sample_envelope 25 [sample_hit 5 (sample_doc 1 (AString ''al'')),
       sample_hit 7 (sample_doc 3 (AString ''bob''))])
       = Some (Finite 25)
   \<and> int64_of_float64 (Finite 25) \<noteq> 0
   \<and> hits_of (sample_envelope 25 [sample_hit 5 (sample_doc 1 (AString ''al'')),
       sample_hit 7 (sample_doc 3 (AString ''bob''))])
       = Some [sample_hit 5 (sample_doc 1 (AString ''al'')),
               sample_hit 7 (sample_doc 3 (AString ''bob''))]
   \<and> [sample_hit 5 (sample_doc 1 (AString ''al'')),
           sample_hit 7 (sample_doc 3 (AString ''bob''))] \<noteq> []
   \<and> map (decode_entry (sample_json
         (sample_envelope 25 [sample_hit 5 (sample_doc 1 (AString ''al'')),
                              sample_hit 7 (sample_doc 3 (AString ''bob''))])))
         [sample_hit 5 (sample_doc 1 (AString ''al'')),
          sample_hit 7 (sample_doc 3 (AString ''bob''))]
       = map Some [(Finite 5, \<lparr>ID = 1, CreatedAt = (''''::string), Username = ''al''\<rparr>),
                   (Finite 7, \<lparr>ID = 3, CreatedAt = (''''::string), Username = ''bob''\<rparr>)]
   \<and> (\<exists>page. fst (Load
         (sample_json (sample_envelope 25
            [sample_hit 5 (sample_doc 1 (AString ''al'')),
             sample_hit 7 (sample_doc 3 (AString ''bob''))]))
         sample_client [] 0 10 (Finite 0) []) = Returns (page, None)
        \<and> LastSort page = Finite 7
        \<and> Users page = [\<lparr>ID = 1, CreatedAt = (''''::string), Username = ''al''\<rparr>,
                         \<lparr>ID = 3, CreatedAt = (''''::string), Username = ''bob''\<rparr>])"
proof -
  define r where "r = sample_envelope 25
         [sample_hit 5 (sample_doc 1 (AString ''al'')),
          sample_hit 7 (sample_doc 3 (AString ''bob''))]"
  have h1: "response_envelope (sample_json r) sample_client [] 0 10 (Finite 0) [] = Some r"
    by (simp add: model_defs sample_defs)
  have h2: "total_value r = Some (Finite 25)"
    by (simp add: r_def model_defs sample_defs)
  have h3: "int64_of_float64 (Finite 25) \<noteq> 0"
    by (simp add: int64_of_float64_def)
  have h4: "hits_of r = Some [sample_hit 5 (sample_doc 1 (AString ''al'')),
                              sample_hit 7 (sample_doc 3 (AString ''bob''))]"
    by (simp add: r_def model_defs sample_defs)
  have h5: "[sample_hit 5 (sample_doc 1 (AString ''al'')),
             sample_hit 7 (sample_doc 3 (AString ''bob''))] \<noteq> []"
    by simp
  have h6: "map (decode_entry (sample_json r))
         [sample_hit 5 (sample_doc 1 (AString ''al'')),
          sample_hit 7 (sample_doc 3 (AString ''bob''))]
       = map Some [(Finite 5, \<lparr>ID = 1, CreatedAt = (''''::string), Username = ''al''\<rparr>),
                   (Finite 7, \<lparr>ID = 3, CreatedAt = (''''::string), Username = ''bob''\<rparr>)]"
    by (simp add: model_defs sample_defs)
  have key: "map_option fst (entry_parts (sample_hit 7 (sample_doc 3 (AString ''bob''))))
      = Some (Finite 7)"
    by (simp add: model_defs sample_defs)
  from Load_cursor_of_fully_decoded_page [OF h1 h2 h3 h4 h5 h6] key
  have "\<exists>page. fst (Load (sample_json r) sample_client [] 0 10 (Finite 0) [])
            = Returns (page, None)
        \<and> LastSort page = Finite 7
        \<and> Users page = [\<lparr>ID = 1, CreatedAt = (''''::string), Username = ''al''\<rparr>,
                         \<lparr>ID = 3, CreatedAt = (''''::string), Username = ''bob''\<rparr>]"
    by auto
  with h1 h2 h3 h4 h5 h6 show ?thesis unfolding r_def by blast
qed

text \<open>
  C1 as stated fails once a document fails to decode: the first of two entries has a
  \<^verbatim>\<open>Username\<close> that is a number, which \<^verbatim>\<open>Unmarshal\<close> rejects; the last entry has the sort
  key 7, and the page that \<^verbatim>\<open>Load\<close> returns has the cursor 0.
\<close>

theorem Load_cursor_after_failed_document_counterexample:
  "hits_of (sample_envelope 2 [sample_hit 5 (sample_doc 1 (AFloat64 (Finite 7))),
      sample_hit 7 (sample_doc 3 (AString ''bob''))])
     = Some [sample_hit 5 (sample_doc 1 (AFloat64 (Finite 7))),
             sample_hit 7 (sample_doc 3 (AString ''bob''))]
   \<and> map_option fst (entry_parts (last [sample_hit 5 (sample_doc 1 (AFloat64 (Finite 7))),
       sample_hit 7 (sample_doc 3 (AString ''bob''))]))
       = Some (Finite 7)
   \<and> Load (sample_json (sample_envelope 2 [sample_hit 5 (sample_doc 1 (AFloat64 (Finite 7))),
       sample_hit 7 (sample_doc 3 (AString ''bob''))]))
        sample_client [] 0 10 (Finite 0) []
       = (Returns (\<lparr>Users = [], TotalCount = 2, LastSort = Finite 0\<rparr>, None),
          [(\<lparr>WithTimeout = 30000000000, WithIndex = [''my-simple-index''], WithBody = ''query'',
             WithFrom = Some 0, WithSize = Some 10, WithTrackTotalHits = True,
             WithPretty = True\<rparr>, Inr \<lparr>StatusCode = 200, Body = ''ok''\<rparr>)])
   \<and> Finite 0 \<noteq> Finite 7"
  by (simp add: model_defs sample_defs hits_loop.simps(2))

section \<open>Envelopes without a total\<close>

text \<open>
  When one of the type assertions on the path \<^verbatim>\<open>hits.total.value\<close> fails, \<^verbatim>\<open>Load\<close> panics:
  it returns neither a page nor an error.
\<close>

lemma Load_panics_without_total:
  assumes "response_envelope j c index from sz cursor hist = Some r"
    and "total_value r = None"
  shows "fst (Load j c index from sz cursor hist) = Panics"
  using Load_envelope [OF assms(1)] assms(2) by (simp add: decode_result_def)


text \<open>
  C3: the claim asks for a decode error and a zero page when \<^verbatim>\<open>hits.total.value\<close> is
  missing or ill-shaped. On a success response whose \<^verbatim>\<open>hits.total\<close> is the number 25 (the
  form with the total as an integer) the assertion to a map at line 206 panics instead.
\<close>

theorem Load_total_as_number_panics:
  "response_envelope
      (sample_json [(''hits'', AMap [(''total'', AFloat64 (Finite 25)), (''hits'', ASlice [])])])
      sample_client [] 0 10 (Finite 0) []
     = Some [(''hits'', AMap [(''total'', AFloat64 (Finite 25)), (''hits'', ASlice [])])]
   \<and> total_value [(''hits'', AMap [(''total'', AFloat64 (Finite 25)), (''hits'', ASlice [])])]
       = None
   \<and> Load (sample_json [(''hits'', AMap [(''total'', AFloat64 (Finite 25)), (''hits'', ASlice [])])])
         sample_client [] 0 10 (Finite 0) []
       = (Panics,
          [(\<lparr>WithTimeout = 30000000000, WithIndex = [''my-simple-index''], WithBody = ''query'',
             WithFrom = Some 0, WithSize = Some 10, WithTrackTotalHits = True,
             WithPretty = True\<rparr>, Inr \<lparr>StatusCode = 200, Body = ''ok''\<rparr>)])"
  by (simp add: model_defs sample_defs)

section \<open>The query\<close>

lemma Load_ignores_from:
  "cursor \<noteq> Finite 0 \<Longrightarrow>
     Load j c index from sz cursor hist = Load j c index from' sz cursor hist"
  by (simp add: Load_def search_request_def Let_def split: option.splits)

lemma Load_history:
  "snd (Load j c index from sz cursor hist) =
     (case Encode j (AMap (query_of cursor)) of
        None \<Rightarrow> hist
      | Some buf \<Rightarrow>
          hist @ [(search_request c (if index = [] then defaultIndex c else index)
                     from sz cursor buf,
                   Search c hist
                     (search_request c (if index = [] then defaultIndex c else index)
                        from sz cursor buf))])"
  by (simp add: Load_def Let_def split: option.splits)

text \<open>
  C4: the query of every call holds the ascending sort on \<^verbatim>\<open>ID\<close>. A call whose query was
  encoded issues exactly one search, with the encoded query as its body. With a non-zero
  cursor the query holds \<^verbatim>\<open>search_after\<close> with the cursor and no \<^verbatim>\<open>from\<close> key, the search
  is issued without the \<^verbatim>\<open>from\<close> option, and the offset argument has no influence on the
  call.
\<close>

theorem Load_query_shape:
  "map_of (query_of cursor) ''sort''
     = Some (ASlice [AMap [(''ID'', AMap [(''order'', AString ''asc'')])]])
   \<and> (case Encode j (AMap (query_of cursor)) of
         None \<Rightarrow> snd (Load j c index from sz cursor hist) = hist
       | Some buf \<Rightarrow>
           (\<exists>req reply. snd (Load j c index from sz cursor hist) = hist @ [(req, reply)]
              \<and> WithBody req = buf \<and> WithSize req = Some sz
              \<and> (cursor \<noteq> Finite 0 \<longrightarrow> WithFrom req = None)))
   \<and> (cursor \<noteq> Finite 0 \<longrightarrow>
         map_of (query_of cursor) ''search_after'' = Some (ASlice [AFloat64 cursor])
         \<and> map_of (query_of cursor) ''from'' = None
         \<and> Load j c index from sz cursor hist = Load j c index from' sz cursor hist)"
proof -
  have sort: "map_of (query_of cursor) ''sort''
     = Some (ASlice [AMap [(''ID'', AMap [(''order'', AString ''asc'')])]])"
    by (simp add: query_of_def Let_def)
  have issued: "(case Encode j (AMap (query_of cursor)) of
         None \<Rightarrow> snd (Load j c index from sz cursor hist) = hist
       | Some buf \<Rightarrow>
           (\<exists>req reply. snd (Load j c index from sz cursor hist) = hist @ [(req, reply)]
              \<and> WithBody req = buf \<and> WithSize req = Some sz
              \<and> (cursor \<noteq> Finite 0 \<longrightarrow> WithFrom req = None)))"
    by (simp add: Load_history search_request_def split: option.splits)
  have after: "cursor \<noteq> Finite 0 \<Longrightarrow>
         map_of (query_of cursor) ''search_after'' = Some (ASlice [AFloat64 cursor])
         \<and> map_of (query_of cursor) ''from'' = None"
    by (simp add: query_of_def Let_def)
  from sort issued after Load_ignores_from [of cursor j c index "from" sz hist from']
  show ?thesis by blast
qed

theorem Load_query_shape_witness:
  "Finite 7 \<noteq> Finite 0
   \<and> Encode (sample_json []) (AMap (query_of (Finite 7))) = Some ''query''
   \<and> map_of (query_of (Finite 7)) ''sort''
       = Some (ASlice [AMap [(''ID'', AMap [(''order'', AString ''asc'')])]])
   \<and> (\<exists>req reply. snd (Load (sample_json []) sample_client [] 40 10 (Finite 7) [])
                      = [] @ [(req, reply)]
         \<and> WithBody req = ''query'' \<and> WithSize req = Some 10 \<and> WithFrom req = None)
   \<and> map_of (query_of (Finite 7)) ''search_after'' = Some (ASlice [AFloat64 (Finite 7)])
   \<and> map_of (query_of (Finite 7)) ''from'' = None
   \<and> Load (sample_json []) sample_client [] 40 10 (Finite 7) []
       = Load (sample_json []) sample_client [] 0 10 (Finite 7) []"
proof -
  have nz: "Finite 7 \<noteq> Finite 0" by simp
  have enc: "Encode (sample_json []) (AMap (query_of (Finite 7))) = Some ''query''"
    by (simp add: sample_json_def)
  have "case Some ''query'' of
          None \<Rightarrow> snd (Load (sample_json []) sample_client [] 40 10 (Finite 7) []) = []
        | Some buf \<Rightarrow>
            (\<exists>req reply. snd (Load (sample_json []) sample_client [] 40 10 (Finite 7) [])
                             = [] @ [(req, reply)]
               \<and> WithBody req = buf \<and> WithSize req = Some 10
               \<and> (Finite 7 \<noteq> Finite 0 \<longrightarrow> WithFrom req = None))"
    using Load_query_shape [of "Finite 7" "sample_json []" sample_client "[]" 40 10 "[]" 0]
    unfolding enc by blast
  then have issued: "\<exists>req reply. snd (Load (sample_json []) sample_client [] 40 10 (Finite 7) [])
                             = [] @ [(req, reply)]
               \<and> WithBody req = ''query'' \<and> WithSize req = Some 10 \<and> WithFrom req = None"
    unfolding option.case using nz by blast
  from Load_query_shape [of "Finite 7" "sample_json []" sample_client "[]" 40 10 "[]" 0] nz enc
    issued
  show ?thesis by blast
qed

section \<open>The offset strategy\<close>

lemma wrap64_in_range:
  "- (2 ^ 63) \<le> x \<Longrightarrow> x < 2 ^ 63 \<Longrightarrow> wrap64 x = x"
  by (simp add: wrap64_def)

lemma ceiling_step:
  assumes "0 < sz" and "i < bound"
  shows "nat \<lceil>real_of_int (bound - i) / real_of_int sz\<rceil>
           = Suc (nat \<lceil>real_of_int (bound - (i + sz)) / real_of_int sz\<rceil>)"
proof -
  have "real_of_int (bound - (i + sz)) / real_of_int sz
          = real_of_int (bound - i) / real_of_int sz - 1"
    using assms(1) by (simp add: field_simps)
  then have eq: "\<lceil>real_of_int (bound - (i + sz)) / real_of_int sz\<rceil>
          = \<lceil>real_of_int (bound - i) / real_of_int sz\<rceil> - 1"
    by simp
  have "0 < real_of_int (bound - i) / real_of_int sz"
    using assms by simp
  then have "0 < \<lceil>real_of_int (bound - i) / real_of_int sz\<rceil>"
    by (simp add: ceiling_less_iff)
  with eq show ?thesis by arith
qed

lemma ceiling_done:
  assumes "0 < sz" and "\<not> i < bound"
  shows "nat \<lceil>real_of_int (bound - i) / real_of_int sz\<rceil> = 0"
proof -
  have "real_of_int (bound - i) / real_of_int sz \<le> 0"
    using assms by (simp add: divide_nonpos_pos)
  then have "\<lceil>real_of_int (bound - i) / real_of_int sz\<rceil> \<le> 0"
    by (simp add: ceiling_le_iff)
  then show ?thesis by simp
qed

lemma Load_offset_cases:
  obtains (encode) "Encode j (AMap (query_of (Finite 0))) = None"
    "Load j c index i sz (Finite 0) hist
       = (Returns (SearchResult_zero, Some ErrEncodingQuery), hist)"
  | (search) req reply where
    "Load j c index i sz (Finite 0) hist = (handle_reply j reply, hist @ [(req, reply)])"
    "WithFrom req = Some i" "WithSize req = Some sz"
  by (cases "Encode j (AMap (query_of (Finite 0)))")
     (auto simp: Load_def Let_def search_request_def)

lemma upt_offsets:
  "map (\<lambda>k. Some (i + int k * sz)) [0..<Suc n]
     = Some i # map (\<lambda>k. Some (i + sz + int k * sz)) [0..<n]"
proof -
  have "map (\<lambda>k. Some (i + int k * sz)) [0..<Suc n]
          = Some i # map (\<lambda>k. Some (i + int k * sz)) (map Suc [0..<n])"
    by (simp add: upt_conv_Cons map_Suc_upt del: upt_Suc)
  also have "map (\<lambda>k. Some (i + int k * sz)) (map Suc [0..<n])
          = map (\<lambda>k. Some (i + sz + int k * sz)) [0..<n]"
    by (simp add: algebra_simps)
  finally show ?thesis .
qed

text \<open>
  With a positive page size and no wrap-around the loop always ends, whatever the engine
  answers; a run that returns is described by the searches it made.
\<close>

lemma offset_loop_run:
  assumes "0 < sz" and "bound + sz \<le> 2 ^ 63" and "- (2 ^ 63) \<le> i"
  shows "\<exists>out hist'. offset_loop j c index sz bound i acc hist = Some (out, hist')
           \<and> (\<forall>result. out = Returns result \<longrightarrow>
                 (\<exists>new. hist' = hist @ new
                    \<and> length new = nat \<lceil>real_of_int (bound - i) / real_of_int sz\<rceil>
                    \<and> map (WithFrom \<circ> fst) new
                        = map (\<lambda>k. Some (i + int k * sz)) [0..<length new]
                    \<and> (\<forall>x \<in> set new. WithSize (fst x) = Some sz
                          \<and> (\<exists>res. handle_reply j (snd x) = Returns (res, None)))
                    \<and> result = acc @ concat (map (exchange_users j) new)))"
  using assms(3)
proof (induction "nat (bound - i)" arbitrary: i acc hist rule: less_induct)
  case less
  show ?case
  proof (cases "i < bound")
    case False
    then have "offset_loop j c index sz bound i acc hist = Some (Returns acc, hist)"
      by (subst offset_loop.simps) simp
    moreover have "nat \<lceil>real_of_int (bound - i) / real_of_int sz\<rceil> = 0"
      using assms(1) False by (rule ceiling_done)
    ultimately show ?thesis by simp
  next
    case True
    show ?thesis
    proof (cases rule: Load_offset_cases [of j c index i sz hist])
      case encode
      with True have "offset_loop j c index sz bound i acc hist = Some (Exits, hist)"
        by (subst offset_loop.simps) simp
      then show ?thesis by simp
    next
      case (search req reply)
      let ?hist1 = "hist @ [(req, reply)]"
      show ?thesis
      proof (cases "handle_reply j reply")
        case Panics
        with True search have "offset_loop j c index sz bound i acc hist = Some (Panics, ?hist1)"
          by (subst offset_loop.simps) simp
        then show ?thesis by simp
      next
        case Exits
        with True search have "offset_loop j c index sz bound i acc hist = Some (Exits, ?hist1)"
          by (subst offset_loop.simps) simp
        then show ?thesis by simp
      next
        case (Returns p)
        obtain res err where p: "p = (res, err)" by (cases p)
        show ?thesis
        proof (cases err)
          case (Some e)
          with True search Returns p
          have "offset_loop j c index sz bound i acc hist = Some (Exits, ?hist1)"
            by (subst offset_loop.simps) simp
          then show ?thesis by simp
        next
          case None
          have next_i: "wrap64 (i + sz) = i + sz"
            using assms(1,2) less.prems True by (intro wrap64_in_range) auto
          have unfold: "offset_loop j c index sz bound i acc hist
                  = offset_loop j c index sz bound (i + sz) (acc @ Users res) ?hist1"
            using True search Returns p None next_i by (subst offset_loop.simps) simp
          have smaller: "nat (bound - (i + sz)) < nat (bound - i)"
            using assms(1) True by simp
          have lower: "- (2 ^ 63) \<le> i + sz"
            using assms(1) less.prems by simp
          from less.hyps [OF smaller lower, of "acc @ Users res" ?hist1]
          obtain out hist' where
            run: "offset_loop j c index sz bound (i + sz) (acc @ Users res) ?hist1
                    = Some (out, hist')"
            and post: "\<forall>result. out = Returns result \<longrightarrow>
                 (\<exists>new. hist' = ?hist1 @ new
                    \<and> length new = nat \<lceil>real_of_int (bound - (i + sz)) / real_of_int sz\<rceil>
                    \<and> map (WithFrom \<circ> fst) new
                        = map (\<lambda>k. Some (i + sz + int k * sz)) [0..<length new]
                    \<and> (\<forall>x \<in> set new. WithSize (fst x) = Some sz
                          \<and> (\<exists>res. handle_reply j (snd x) = Returns (res, None)))
                    \<and> result = (acc @ Users res) @ concat (map (exchange_users j) new))"
            by (elim exE conjE)
          have "\<exists>new. hist' = hist @ new
                    \<and> length new = nat \<lceil>real_of_int (bound - i) / real_of_int sz\<rceil>
                    \<and> map (WithFrom \<circ> fst) new
                        = map (\<lambda>k. Some (i + int k * sz)) [0..<length new]
                    \<and> (\<forall>x \<in> set new. WithSize (fst x) = Some sz
                          \<and> (\<exists>res. handle_reply j (snd x) = Returns (res, None)))
                    \<and> result = acc @ concat (map (exchange_users j) new)"
            if "out = Returns result" for result
          proof -
            from post that obtain new' where
              h: "hist' = ?hist1 @ new'"
              and l: "length new' = nat \<lceil>real_of_int (bound - (i + sz)) / real_of_int sz\<rceil>"
              and f: "map (WithFrom \<circ> fst) new'
                        = map (\<lambda>k. Some (i + sz + int k * sz)) [0..<length new']"
              and a: "\<forall>x \<in> set new'. WithSize (fst x) = Some sz
                          \<and> (\<exists>res. handle_reply j (snd x) = Returns (res, None))"
              and r: "result = (acc @ Users res) @ concat (map (exchange_users j) new')"
              by blast
            let ?new = "(req, reply) # new'"
            have "hist' = hist @ ?new" using h by simp
            moreover have "length ?new = nat \<lceil>real_of_int (bound - i) / real_of_int sz\<rceil>"
              using l ceiling_step [OF assms(1) True] by simp
            moreover have "map (WithFrom \<circ> fst) ?new
                        = map (\<lambda>k. Some (i + int k * sz)) [0..<length ?new]"
              using f search(2) upt_offsets [of i sz "length new'"] by simp
            moreover have "\<forall>x \<in> set ?new. WithSize (fst x) = Some sz
                          \<and> (\<exists>res. handle_reply j (snd x) = Returns (res, None))"
              using a search(3) Returns p None by simp
            moreover have "result = acc @ concat (map (exchange_users j) ?new)"
              using r Returns p by (simp add: exchange_users_def)
            ultimately show ?thesis by blast
          qed
          with unfold run show ?thesis by simp
        qed
      qed
    qed
  qed
qed








section \<open>The cursor strategy\<close>

text \<open>An error of a fetch made inside the loop ends the process at once.\<close>

lemma cursor_loop_fetch_error_exits:
  assumes "i < 10"
    and "Load j c index 0 sz ls hist = (Returns (res2, Some err2), hist')"
  shows "cursor_loop j c index sz i ls res hist = (Exits, hist')"
  using assms by (subst cursor_loop.simps) simp

text \<open>
  C7: the claim asks that an error of any fetch, the first one included, aborts the
  pagination. With an engine that refuses the first search and answers the later ones,
  the first \<^verbatim>\<open>Load\<close> returns an error, and \<^verbatim>\<open>cursorPaginate\<close> still makes nine more
  searches and returns their documents.
\<close>

theorem cursorPaginate_goes_on_after_first_error:
  "Load (sample_json (sample_envelope 25 [sample_hit 5 (sample_doc 1 (AString ''al''))]))
      (sample_client\<lparr>Search := \<lambda>hist req. if hist = [] then Inl ''connection refused''
                                           else Inr \<lparr>StatusCode = 200, Body = ''ok''\<rparr>\<rparr>)
      [] 0 10 (Finite 0) []
     = (Returns (\<lparr>Users = [], TotalCount = 0, LastSort = Finite 0\<rparr>,
                 Some (ErrSearchResponse ''connection refused'')),
        [(\<lparr>WithTimeout = 30000000000, WithIndex = [''my-simple-index''], WithBody = ''query'',
           WithFrom = Some 0, WithSize = Some 10, WithTrackTotalHits = True,
           WithPretty = True\<rparr>, Inl ''connection refused'')])
   \<and> fst (cursorPaginate (sample_json (sample_envelope 25 [sample_hit 5 (sample_doc 1 (AString ''al''))]))
        (sample_client\<lparr>Search := \<lambda>hist req. if hist = [] then Inl ''connection refused''
                                             else Inr \<lparr>StatusCode = 200, Body = ''ok''\<rparr>\<rparr>)
        [] [])
       = Returns (replicate 9 \<lparr>ID = 1, CreatedAt = (''''::string), Username = ''al''\<rparr>)
   \<and> map (WithFrom \<circ> fst)
        (snd (cursorPaginate (sample_json (sample_envelope 25 [sample_hit 5 (sample_doc 1 (AString ''al''))]))
          (sample_client\<lparr>Search := \<lambda>hist req. if hist = [] then Inl ''connection refused''
                                               else Inr \<lparr>StatusCode = 200, Body = ''ok''\<rparr>\<rparr>)
          [] []))
       = [Some 0, Some 0, None, None, None, None, None, None, None, None]"
  by (simp add: cursorPaginate_def model_defs sample_defs hits_loop.simps(2) eval_nat_numeral)

end
